theory Spec2Isabelle
  imports Main "HOL-Library.Word"
begin

section \<open>The OGR geometry factory (ogr/ogrgeometryfactory.cpp)\<close>

text \<open>
  A shallow embedding of the static methods of \<open>OGRGeometryFactory\<close>:
  \<open>createFromWkb\<close>, \<open>createFromWkt\<close>, \<open>createGeometry\<close>, \<open>destroyGeometry\<close>,
  \<open>forceToPolygon\<close> and \<open>forceToMultiPolygon\<close>.

  Geometry objects live in an explicit store and are referred to by address; a C++
  pointer is an \<open>addr option\<close> with \<open>None\<close> for \<open>NULL\<close>. Every function takes the
  store and returns the store it leaves behind.
\<close>

subsection \<open>Wire-format constants and status codes\<close>

type_synonym byte = "8 word"
type_synonym OGRwkbGeometryType = "32 word"
type_synonym OGRwkbByteOrder = "32 word"

text \<open>
  Modelled from the spec: the header that declares the enumerations
  \<open>OGRwkbGeometryType\<close> and \<open>OGRwkbByteOrder\<close> is not part of the sources. The spec
  names seven geometry kinds and two byte-order markers; they carry the type codes and
  marker values of the well-known-binary format (the spec's scenario encodes a Point as
  the type bytes \<open>01 00 00 00\<close> after the little-endian marker).
\<close>

definition wkbPoint :: OGRwkbGeometryType where "wkbPoint = 1"
definition wkbLineString :: OGRwkbGeometryType where "wkbLineString = 2"
definition wkbPolygon :: OGRwkbGeometryType where "wkbPolygon = 3"
definition wkbMultiPoint :: OGRwkbGeometryType where "wkbMultiPoint = 4"
definition wkbMultiLineString :: OGRwkbGeometryType where "wkbMultiLineString = 5"
definition wkbMultiPolygon :: OGRwkbGeometryType where "wkbMultiPolygon = 6"
definition wkbGeometryCollection :: OGRwkbGeometryType where "wkbGeometryCollection = 7"

definition wkbXDR :: OGRwkbByteOrder where "wkbXDR = 0"
definition wkbNDR :: OGRwkbByteOrder where "wkbNDR = 1"

text \<open>
  \<open>OGRErr\<close> is an integer status with named codes; the codes are an enumeration here.
\<close>

datatype OGRErr =
    OGRERR_NONE
  | OGRERR_NOT_ENOUGH_DATA
  | OGRERR_NOT_ENOUGH_MEMORY
  | OGRERR_UNSUPPORTED_GEOMETRY_TYPE
  | OGRERR_UNSUPPORTED_OPERATION
  | OGRERR_CORRUPT_DATA
  | OGRERR_FAILURE

subsection \<open>Geometry objects and the store\<close>

datatype geom_class =
    OGRPoint
  | OGRLineString
  | OGRLinearRing
  | OGRPolygon
  | OGRMultiPoint
  | OGRMultiLineString
  | OGRMultiPolygon
  | OGRGeometryCollection

type_synonym addr = nat

text \<open>
  Modelled from the spec: the geometry classes are declared outside this file. A
  geometry node has a concrete variant; a container owns an ordered sequence of child
  nodes, a polygon owns its exterior ring followed by its interior rings. The vertex
  storage is filled by the importers only and never inspected by the factory.
\<close>

record OGRGeometry =
  geomClass :: geom_class
  coords :: "int list"
  rings :: "addr list"
  geoms :: "addr list"

type_synonym heap = "OGRGeometry option list"

definition obj_at :: "heap \<Rightarrow> addr \<Rightarrow> OGRGeometry option" where
  "obj_at h a = (if a < length h then h ! a else None)"

definition empty_geom :: "geom_class \<Rightarrow> OGRGeometry" where
  "empty_geom c = \<lparr>geomClass = c, coords = [], rings = [], geoms = []\<rparr>"

text \<open>\<open>new C()\<close>: a fresh address holding an empty instance of class \<open>C\<close>.\<close>

definition new_obj :: "geom_class \<Rightarrow> heap \<Rightarrow> addr \<times> heap" where
  "new_obj c h = (length h, h @ [Some (empty_geom c)])"

subsection \<open>Collaborators defined outside this file\<close>

text \<open>
  The macro \<open>wkbFlatten\<close>, the virtual methods \<open>getGeometryType\<close>,
  \<open>importFromWkb\<close>, \<open>importFromWkt\<close>, \<open>assignSpatialReference\<close> and the
  destructors of the geometry classes, and the tokenizer \<open>OGRWktReadToken\<close> are
  declared or defined elsewhere. They are parameters of the model: every theorem below
  holds for all of them.

  A binary buffer \<open>pabyData\<close> is the memory from the pointer on, by offset. A text
  cursor is a position in a text. A spatial reference is an opaque handle.
\<close>

record ogr_env =
  wkbFlatten :: "OGRwkbGeometryType \<Rightarrow> OGRwkbGeometryType"
  getGeometryType :: "OGRGeometry \<Rightarrow> OGRwkbGeometryType"
  importFromWkb :: "addr \<Rightarrow> (nat \<Rightarrow> byte) \<Rightarrow> int \<Rightarrow> heap \<Rightarrow> OGRErr \<times> heap"
  importFromWkt :: "addr \<Rightarrow> string \<Rightarrow> nat \<Rightarrow> heap \<Rightarrow> (OGRErr \<times> nat) \<times> heap"
  assignSpatialReference :: "addr \<Rightarrow> nat option \<Rightarrow> heap \<Rightarrow> heap"
  destructor :: "addr \<Rightarrow> heap \<Rightarrow> heap"
  OGRWktReadToken :: "string \<Rightarrow> nat \<Rightarrow> (nat \<times> string) option"

text \<open>
  \<open>delete p\<close>: nothing for a null pointer; otherwise the destructor of the object runs
  and its storage is released.
\<close>

definition delete_geom :: "ogr_env \<Rightarrow> addr option \<Rightarrow> heap \<Rightarrow> heap" where
  "delete_geom env p h =
     (case p of None \<Rightarrow> h | Some a \<Rightarrow> (destructor env a h)[a := None])"

subsection \<open>createGeometry\<close>

definition createGeometry ::
    "ogr_env \<Rightarrow> OGRwkbGeometryType \<Rightarrow> heap \<Rightarrow> addr option \<times> heap" where
  "createGeometry env eGeometryType h =
     (let t = wkbFlatten env eGeometryType in
      if t = wkbPoint then map_prod Some id (new_obj OGRPoint h)
      else if t = wkbLineString then map_prod Some id (new_obj OGRLineString h)
      else if t = wkbPolygon then map_prod Some id (new_obj OGRPolygon h)
      else if t = wkbGeometryCollection then map_prod Some id (new_obj OGRGeometryCollection h)
      else if t = wkbMultiPolygon then map_prod Some id (new_obj OGRMultiPolygon h)
      else if t = wkbMultiPoint then map_prod Some id (new_obj OGRMultiPoint h)
      else if t = wkbMultiLineString then map_prod Some id (new_obj OGRMultiLineString h)
      else (None, h))"

subsection \<open>destroyGeometry\<close>

definition destroyGeometry :: "ogr_env \<Rightarrow> addr option \<Rightarrow> heap \<Rightarrow> heap" where
  "destroyGeometry env poGeom h = delete_geom env poGeom h"

subsection \<open>createFromWkb\<close>

text \<open>
  The result of \<open>createFromWkb\<close>: the status, the output slot \<open>*ppoReturn\<close>, the
  store, and a record of what the function itself did with its inputs: the offsets of
  \<open>pabyData\<close> it read (in order), the bytes it handed to \<open>CPLDebug\<close>, and the type
  tags it passed to \<open>createGeometry\<close>. Reads made inside \<open>importFromWkb\<close> belong to
  the importer and are not listed.
\<close>

record wkb_result =
  wkb_err :: OGRErr
  wkb_return :: "addr option"
  wkb_heap :: heap
  wkb_reads :: "nat list"
  wkb_debug :: "byte list"
  wkb_tags :: "OGRwkbGeometryType list"

definition read_byte :: "(nat \<Rightarrow> byte) \<Rightarrow> nat \<Rightarrow> nat list \<Rightarrow> byte \<times> nat list" where
  "read_byte pabyData i tr = (pabyData i, tr @ [i])"

primrec read_bytes :: "(nat \<Rightarrow> byte) \<Rightarrow> nat list \<Rightarrow> nat list \<Rightarrow> byte list \<times> nat list" where
  "read_bytes pabyData [] tr = ([], tr)"
| "read_bytes pabyData (i # is) tr =
     (let (b, tr1) = read_byte pabyData i tr;
          (bs, tr2) = read_bytes pabyData is tr1
      in (b # bs, tr2))"

definition createFromWkb ::
    "ogr_env \<Rightarrow> (nat \<Rightarrow> byte) \<Rightarrow> nat option \<Rightarrow> int \<Rightarrow> heap \<Rightarrow> wkb_result" where
  "createFromWkb env pabyData poSR nBytes h =
     (if nBytes < 5 \<and> nBytes \<noteq> -1 then
        \<lparr>wkb_err = OGRERR_NOT_ENOUGH_DATA, wkb_return = None, wkb_heap = h,
         wkb_reads = [], wkb_debug = [], wkb_tags = []\<rparr>
      else
        let (b0, tr0) = read_byte pabyData 0 [];
            eByteOrder = (ucast b0 :: OGRwkbByteOrder)
        in
        if eByteOrder \<noteq> wkbXDR \<and> eByteOrder \<noteq> wkbNDR then
          let (bs, tr1) = read_bytes pabyData [0, 1, 2, 3, 4, 5, 6, 7, 8] tr0
          in \<lparr>wkb_err = OGRERR_CORRUPT_DATA, wkb_return = None, wkb_heap = h,
              wkb_reads = tr1, wkb_debug = bs, wkb_tags = []\<rparr>
        else
          let (bt, tr1) = (if eByteOrder = wkbNDR then read_byte pabyData 1 tr0
                           else read_byte pabyData 4 tr0);
              eGeometryType = (ucast bt :: OGRwkbGeometryType);
              (poGeom, h1) = createGeometry env eGeometryType h
          in
          case poGeom of
            None \<Rightarrow>
              \<lparr>wkb_err = OGRERR_UNSUPPORTED_GEOMETRY_TYPE, wkb_return = None, wkb_heap = h1,
               wkb_reads = tr1, wkb_debug = [], wkb_tags = [eGeometryType]\<rparr>
          | Some a \<Rightarrow>
              let (eErr, h2) = importFromWkb env a pabyData nBytes h1
              in
              if eErr = OGRERR_NONE then
                \<lparr>wkb_err = eErr, wkb_return = Some a,
                 wkb_heap = assignSpatialReference env a poSR h2,
                 wkb_reads = tr1, wkb_debug = [], wkb_tags = [eGeometryType]\<rparr>
              else
                \<lparr>wkb_err = eErr, wkb_return = None,
                 wkb_heap = delete_geom env (Some a) h2,
                 wkb_reads = tr1, wkb_debug = [], wkb_tags = [eGeometryType]\<rparr>)"

subsection \<open>createFromWkt\<close>

text \<open>
  Modelled from the spec: the macro \<open>EQUAL\<close> is declared outside this file; it is
  the case-insensitive comparison of two C strings. Letters are the ASCII letters.
\<close>

definition toupper :: "char \<Rightarrow> char" where
  "toupper c =
     (let n = (of_char c :: nat) in if 97 \<le> n \<and> n \<le> 122 then char_of (n - 32) else c)"

definition EQUAL :: "string \<Rightarrow> string \<Rightarrow> bool" where
  "EQUAL a b = (map toupper a = map toupper b)"

text \<open>
  The result of \<open>createFromWkt\<close>: the status, the output slot \<open>*ppoReturn\<close>, the
  caller's cursor \<open>*ppszData\<close> on return, and the store.
\<close>

record wkt_result =
  wkt_err :: OGRErr
  wkt_return :: "addr option"
  wkt_cursor :: nat
  wkt_heap :: heap

definition createFromWkt ::
    "ogr_env \<Rightarrow> string \<Rightarrow> nat \<Rightarrow> nat option \<Rightarrow> heap \<Rightarrow> wkt_result" where
  "createFromWkt env wkt ppszData poSR h =
     (let pszInput = ppszData in
      case OGRWktReadToken env wkt pszInput of
        None \<Rightarrow>
          \<lparr>wkt_err = OGRERR_CORRUPT_DATA, wkt_return = None, wkt_cursor = ppszData,
           wkt_heap = h\<rparr>
      | Some (_, szToken) \<Rightarrow>
          (case (if EQUAL szToken ''POINT'' then Some (new_obj OGRPoint h)
                 else if EQUAL szToken ''LINESTRING'' then Some (new_obj OGRLineString h)
                 else if EQUAL szToken ''POLYGON'' then Some (new_obj OGRPolygon h)
                 else if EQUAL szToken ''GEOMETRYCOLLECTION''
                   then Some (new_obj OGRGeometryCollection h)
                 else if EQUAL szToken ''MULTIPOLYGON'' then Some (new_obj OGRMultiPolygon h)
                 else if EQUAL szToken ''MULTIPOINT'' then Some (new_obj OGRMultiPoint h)
                 else if EQUAL szToken ''MULTILINESTRING''
                   then Some (new_obj OGRMultiLineString h)
                 else None) of
             None \<Rightarrow>
               \<lparr>wkt_err = OGRERR_UNSUPPORTED_GEOMETRY_TYPE, wkt_return = None,
                wkt_cursor = ppszData, wkt_heap = h\<rparr>
           | Some (poGeom, h1) \<Rightarrow>
               let ((eErr, pszInput'), h2) = importFromWkt env poGeom wkt pszInput h1
               in
               if eErr = OGRERR_NONE then
                 \<lparr>wkt_err = eErr, wkt_return = Some poGeom, wkt_cursor = pszInput',
                  wkt_heap = assignSpatialReference env poGeom poSR h2\<rparr>
               else
                 \<lparr>wkt_err = eErr, wkt_return = None, wkt_cursor = ppszData,
                  wkt_heap = delete_geom env (Some poGeom) h2\<rparr>))"

subsection \<open>Container and polygon accessors\<close>

text \<open>
  Modelled from the spec: the accessors of the container and polygon classes are
  defined outside this file. The spec lists them as \<open>childCount\<close>, \<open>childAt\<close>,
  \<open>exteriorRing\<close>, \<open>interiorRingCount\<close>, \<open>interiorRing\<close>, \<open>addRing\<close> and
  \<open>addChild\<close>; adding a ring or a child moves ownership, it appends the pointer.
  A method called through a pointer that holds no object has no defined result
  (\<open>None\<close>); an accessor asked for a part that does not exist returns \<open>NULL\<close>.
\<close>

definition getNumGeometries :: "heap \<Rightarrow> addr \<Rightarrow> nat option" where
  "getNumGeometries h a = map_option (\<lambda>g. length (geoms g)) (obj_at h a)"

definition getGeometryRef :: "heap \<Rightarrow> addr \<Rightarrow> nat \<Rightarrow> addr option option" where
  "getGeometryRef h a i =
     map_option (\<lambda>g. if i < length (geoms g) then Some (geoms g ! i) else None) (obj_at h a)"

definition getExteriorRing :: "heap \<Rightarrow> addr \<Rightarrow> addr option option" where
  "getExteriorRing h a =
     map_option (\<lambda>g. case rings g of [] \<Rightarrow> None | r # _ \<Rightarrow> Some r) (obj_at h a)"

definition getNumInteriorRings :: "heap \<Rightarrow> addr \<Rightarrow> nat option" where
  "getNumInteriorRings h a =
     map_option (\<lambda>g. case rings g of [] \<Rightarrow> 0 | _ # rs \<Rightarrow> length rs) (obj_at h a)"

definition getInteriorRing :: "heap \<Rightarrow> addr \<Rightarrow> nat \<Rightarrow> addr option option" where
  "getInteriorRing h a i =
     map_option (\<lambda>g. if Suc i < length (rings g) then Some (rings g ! Suc i) else None)
       (obj_at h a)"

definition addRing :: "addr \<Rightarrow> addr option \<Rightarrow> heap \<Rightarrow> heap option" where
  "addRing a poRing h =
     (case (obj_at h a, poRing) of
        (Some g, Some r) \<Rightarrow> Some (h[a := Some (g\<lparr>rings := rings g @ [r]\<rparr>)])
      | _ \<Rightarrow> None)"

definition addGeometry :: "addr \<Rightarrow> addr option \<Rightarrow> heap \<Rightarrow> heap option" where
  "addGeometry a poNewGeom h =
     (case (obj_at h a, poNewGeom) of
        (Some g, Some c) \<Rightarrow> Some (h[a := Some (g\<lparr>geoms := geoms g @ [c]\<rparr>)])
      | _ \<Rightarrow> None)"

subsection \<open>forceToPolygon\<close>

text \<open>
  The two loops of the aggregation branch re-read their bound on every iteration, as
  the source does. A result \<open>None\<close> stands for no defined result: a method called
  through a pointer that holds no object, or a loop that does not end.
\<close>

partial_function (option) addInteriorRings ::
    "addr \<Rightarrow> addr \<Rightarrow> nat \<Rightarrow> heap \<Rightarrow> heap option" where
  "addInteriorRings poPolygon poOldPoly iRing h =
     (case getNumInteriorRings h poOldPoly of
        None \<Rightarrow> None
      | Some n \<Rightarrow>
          if iRing < n then
            (case getInteriorRing h poOldPoly iRing of
               None \<Rightarrow> None
             | Some r \<Rightarrow>
                 (case addRing poPolygon r h of
                    None \<Rightarrow> None
                  | Some h' \<Rightarrow> addInteriorRings poPolygon poOldPoly (iRing + 1) h'))
          else Some h)"

declare addInteriorRings.simps [code]

partial_function (option) addPolygonRings ::
    "ogr_env \<Rightarrow> addr \<Rightarrow> addr \<Rightarrow> nat \<Rightarrow> heap \<Rightarrow> heap option" where
  "addPolygonRings env poPolygon poGC iGeom h =
     (case getNumGeometries h poGC of
        None \<Rightarrow> None
      | Some n \<Rightarrow>
          if iGeom < n then
            (case getGeometryRef h poGC iGeom of
               Some (Some poOldPoly) \<Rightarrow>
                 (case obj_at h poOldPoly of
                    None \<Rightarrow> None
                  | Some g \<Rightarrow>
                      if wkbFlatten env (getGeometryType env g) \<noteq> wkbPolygon then
                        addPolygonRings env poPolygon poGC (iGeom + 1) h
                      else
                        (case getExteriorRing h poOldPoly of
                           None \<Rightarrow> None
                         | Some r \<Rightarrow>
                             (case addRing poPolygon r h of
                                None \<Rightarrow> None
                              | Some h1 \<Rightarrow>
                                  (case addInteriorRings poPolygon poOldPoly 0 h1 of
                                     None \<Rightarrow> None
                                   | Some h2 \<Rightarrow>
                                       addPolygonRings env poPolygon poGC (iGeom + 1) h2))))
             | _ \<Rightarrow> None)
          else Some h)"

declare addPolygonRings.simps [code]

definition forceToPolygon ::
    "ogr_env \<Rightarrow> addr option \<Rightarrow> heap \<Rightarrow> (addr option \<times> heap) option" where
  "forceToPolygon env poGeom h =
     (case poGeom of
        None \<Rightarrow> Some (None, h)
      | Some a \<Rightarrow>
          (case obj_at h a of
             None \<Rightarrow> None
           | Some g \<Rightarrow>
               if wkbFlatten env (getGeometryType env g) \<noteq> wkbGeometryCollection
                  \<or> wkbFlatten env (getGeometryType env g) \<noteq> wkbMultiPolygon
               then Some (Some a, h)
               else
                 let (poPolygon, h1) = new_obj OGRPolygon h
                 in (case addPolygonRings env poPolygon a 0 h1 of
                       None \<Rightarrow> None
                     | Some h2 \<Rightarrow> Some (Some poPolygon, delete_geom env (Some a) h2))))"

subsection \<open>forceToMultiPolygon\<close>

definition forceToMultiPolygon ::
    "ogr_env \<Rightarrow> addr option \<Rightarrow> heap \<Rightarrow> (addr option \<times> heap) option" where
  "forceToMultiPolygon env poGeom h =
     (case poGeom of
        None \<Rightarrow> Some (None, h)
      | Some a \<Rightarrow>
          (case obj_at h a of
             None \<Rightarrow> None
           | Some g \<Rightarrow>
               if wkbFlatten env (getGeometryType env g) \<noteq> wkbPolygon
               then Some (Some a, h)
               else
                 let (poMP, h1) = new_obj OGRMultiPolygon h
                 in (case addGeometry poMP (Some a) h1 of
                       None \<Rightarrow> None
                     | Some h2 \<Rightarrow> Some (Some poMP, h2))))"

subsection \<open>Vocabulary of the specification\<close>

text \<open>
  The seven supported kinds: each type code with the class that \<open>createGeometry\<close>
  is to instantiate for it, and each keyword with the class that \<open>createFromWkt\<close>
  is to instantiate for it.
\<close>

definition wkb_kinds :: "(OGRwkbGeometryType \<times> geom_class) list" where
  "wkb_kinds =
     [(wkbPoint, OGRPoint), (wkbLineString, OGRLineString), (wkbPolygon, OGRPolygon),
      (wkbMultiPoint, OGRMultiPoint), (wkbMultiLineString, OGRMultiLineString),
      (wkbMultiPolygon, OGRMultiPolygon), (wkbGeometryCollection, OGRGeometryCollection)]"

definition wkt_keywords :: "(string \<times> geom_class) list" where
  "wkt_keywords =
     [(''POINT'', OGRPoint), (''LINESTRING'', OGRLineString), (''POLYGON'', OGRPolygon),
      (''GEOMETRYCOLLECTION'', OGRGeometryCollection), (''MULTIPOLYGON'', OGRMultiPolygon),
      (''MULTIPOINT'', OGRMultiPoint), (''MULTILINESTRING'', OGRMultiLineString)]"

text \<open>
  A geometry argument is the null pointer or the address of an object of the store.
\<close>

definition valid_ptr :: "heap \<Rightarrow> addr option \<Rightarrow> bool" where
  "valid_ptr h p = (case p of None \<Rightarrow> True | Some a \<Rightarrow> obj_at h a \<noteq> None)"

text \<open>
  The header of a binary buffer is accepted when the byte count is at least 5 or the
  unbounded sentinel -1, and byte 0 is one of the two byte-order markers. The type byte is
  the byte at offset 1 behind the little-endian marker and at offset 4 otherwise.
\<close>

definition wkb_header_ok :: "(nat \<Rightarrow> byte) \<Rightarrow> int \<Rightarrow> bool" where
  "wkb_header_ok pabyData nBytes =
     ((5 \<le> nBytes \<or> nBytes = -1)
      \<and> (ucast (pabyData 0) = wkbXDR \<or> ucast (pabyData 0) = wkbNDR))"

definition wkb_type_byte :: "(nat \<Rightarrow> byte) \<Rightarrow> byte" where
  "wkb_type_byte pabyData =
     (if ucast (pabyData 0) = wkbNDR then pabyData 1 else pabyData 4)"

subsection \<open>A reference instance of the collaborators\<close>

text \<open>
  A small executable instance of the parameters, and a few inputs, on which the
  theorems below are run: the flattening clears the top bit of the type code, the
  binary importer wants at least nine bytes, the text importer reads the keyword and
  accepts the word EMPTY behind it, the tokenizer skips blanks and reads letters and
  digits.
\<close>

definition is_token_char :: "char \<Rightarrow> bool" where
  "is_token_char c =
     (let n = (of_char c :: nat)
      in (97 \<le> n \<and> n \<le> 122) \<or> (65 \<le> n \<and> n \<le> 90) \<or> (48 \<le> n \<and> n \<le> 57))"

definition sample_read_token :: "string \<Rightarrow> nat \<Rightarrow> (nat \<times> string) option" where
  "sample_read_token text pos =
     (let rest = dropWhile (\<lambda>c. c = CHR '' '') (drop pos text);
          tok = takeWhile is_token_char rest
      in Some (length text - length rest + length tok, tok))"

definition sample_type_of :: "OGRGeometry \<Rightarrow> OGRwkbGeometryType" where
  "sample_type_of g =
     (case geomClass g of
        OGRPoint \<Rightarrow> wkbPoint
      | OGRLineString \<Rightarrow> wkbLineString
      | OGRLinearRing \<Rightarrow> wkbLineString
      | OGRPolygon \<Rightarrow> wkbPolygon
      | OGRMultiPoint \<Rightarrow> wkbMultiPoint
      | OGRMultiLineString \<Rightarrow> wkbMultiLineString
      | OGRMultiPolygon \<Rightarrow> wkbMultiPolygon
      | OGRGeometryCollection \<Rightarrow> wkbGeometryCollection)"

definition sample_import_wkb :: "addr \<Rightarrow> (nat \<Rightarrow> byte) \<Rightarrow> int \<Rightarrow> heap \<Rightarrow> OGRErr \<times> heap" where
  "sample_import_wkb a pabyData nBytes h =
     (if nBytes \<noteq> -1 \<and> nBytes < 9 then (OGRERR_NOT_ENOUGH_DATA, h) else (OGRERR_NONE, h))"

definition sample_import_wkt :: "addr \<Rightarrow> string \<Rightarrow> nat \<Rightarrow> heap \<Rightarrow> (OGRErr \<times> nat) \<times> heap" where
  "sample_import_wkt a text pos h =
     (case sample_read_token text pos of
        None \<Rightarrow> ((OGRERR_CORRUPT_DATA, pos), h)
      | Some (p1, _) \<Rightarrow>
          (case sample_read_token text p1 of
             None \<Rightarrow> ((OGRERR_CORRUPT_DATA, p1), h)
           | Some (p2, tok) \<Rightarrow>
               if EQUAL tok ''EMPTY'' then ((OGRERR_NONE, p2), h)
               else ((OGRERR_CORRUPT_DATA, p2), h)))"

definition sample_env :: ogr_env where
  "sample_env =
     \<lparr>wkbFlatten = take_bit 31,
      getGeometryType = sample_type_of,
      importFromWkb = sample_import_wkb,
      importFromWkt = sample_import_wkt,
      assignSpatialReference = (\<lambda>a sr h. h),
      destructor = (\<lambda>a h. h),
      OGRWktReadToken = sample_read_token\<rparr>"

definition ndr_buffer :: "byte \<Rightarrow> nat \<Rightarrow> byte" where
  "ndr_buffer tag i = (if i = 0 then 1 else if i = 1 then tag else 0)"

definition xdr_buffer :: "byte \<Rightarrow> nat \<Rightarrow> byte" where
  "xdr_buffer tag i = (if i = 4 then tag else 0)"

definition corrupt_buffer :: "nat \<Rightarrow> byte" where
  "corrupt_buffer i = (if i = 0 then 2 else 0)"

definition sample_heap :: heap where
  "sample_heap =
     [Some ((empty_geom OGRMultiPolygon)\<lparr>geoms := [1]\<rparr>),
      Some ((empty_geom OGRPolygon)\<lparr>rings := [2, 3, 4]\<rparr>),
      Some (empty_geom OGRLinearRing),
      Some (empty_geom OGRLinearRing),
      Some (empty_geom OGRLinearRing)]"

section \<open>Properties\<close>

subsection \<open>Auxiliary facts\<close>

lemmas wkb_consts = wkbPoint_def wkbLineString_def wkbPolygon_def wkbMultiPoint_def
  wkbMultiLineString_def wkbMultiPolygon_def wkbGeometryCollection_def

lemmas sample_defs = sample_env_def sample_type_of_def sample_import_wkb_def
  sample_heap_def empty_geom_def obj_at_def

lemma byte_order_distinct: "wkbXDR \<noteq> wkbNDR"
  by (simp add: wkbXDR_def wkbNDR_def)

lemma ucast_byte_le: "(ucast (b :: byte) :: OGRwkbGeometryType) \<le> 255"
proof -
  have "uint (ucast b :: 32 word) = uint b"
    by (simp add: uint_up_ucast is_up)
  moreover have "uint b < 2 ^ 8"
    using uint_bounded [of b] by simp
  ultimately show ?thesis
    by (simp add: word_le_def)
qed

lemma obj_at_fresh: "obj_at h (length h) = None"
  by (simp add: obj_at_def)

lemma obj_at_append_old: "a < length h \<Longrightarrow> obj_at (h @ xs) a = obj_at h a"
  by (simp add: obj_at_def nth_append)

lemma obj_at_append_new: "obj_at (h @ [x]) (length h) = x"
  by (simp add: obj_at_def)

lemma obj_at_Some_less: "obj_at h a = Some g \<Longrightarrow> a < length h"
  by (simp add: obj_at_def split: if_splits)

lemma obj_at_deleted: "obj_at (delete_geom env (Some a) h) a = None"
  by (simp add: delete_geom_def obj_at_def)

lemma createGeometry_kind:
  assumes "(code, c) \<in> set wkb_kinds" and "wkbFlatten env t = code"
  shows "createGeometry env t h = (Some (length h), h @ [Some (empty_geom c)])"
  using assms by (auto simp add: wkb_kinds_def createGeometry_def new_obj_def wkb_consts)

lemma createGeometry_other:
  assumes "wkbFlatten env t \<notin> fst ` set wkb_kinds"
  shows "createGeometry env t h = (None, h)"
  using assms by (simp add: wkb_kinds_def createGeometry_def)

lemma createFromWkb_unsupported:
  assumes "wkb_header_ok pabyData nBytes"
    and "createGeometry env (ucast (wkb_type_byte pabyData)) h = (None, h1)"
  shows "createFromWkb env pabyData poSR nBytes h =
           \<lparr>wkb_err = OGRERR_UNSUPPORTED_GEOMETRY_TYPE, wkb_return = None, wkb_heap = h1,
            wkb_reads = [0, if ucast (pabyData 0) = wkbNDR then 1 else 4], wkb_debug = [],
            wkb_tags = [ucast (wkb_type_byte pabyData)]\<rparr>"
  using assms byte_order_distinct
  by (auto simp add: createFromWkb_def wkb_header_ok_def wkb_type_byte_def read_byte_def)

lemma createFromWkb_import:
  assumes "wkb_header_ok pabyData nBytes"
    and "createGeometry env (ucast (wkb_type_byte pabyData)) h = (Some a, h1)"
    and "importFromWkb env a pabyData nBytes h1 = (e, h2)"
  shows "createFromWkb env pabyData poSR nBytes h =
           \<lparr>wkb_err = e,
            wkb_return = (if e = OGRERR_NONE then Some a else None),
            wkb_heap = (if e = OGRERR_NONE then assignSpatialReference env a poSR h2
                        else delete_geom env (Some a) h2),
            wkb_reads = [0, if ucast (pabyData 0) = wkbNDR then 1 else 4], wkb_debug = [],
            wkb_tags = [ucast (wkb_type_byte pabyData)]\<rparr>"
  using assms byte_order_distinct
  by (auto simp add: createFromWkb_def wkb_header_ok_def wkb_type_byte_def read_byte_def)

lemma sample_flatten_bytes: "wkbFlatten sample_env (ucast (b :: byte)) = ucast b"
proof -
  have "(ucast b :: OGRwkbGeometryType) \<le> 255" by (rule ucast_byte_le)
  then have "(ucast b :: OGRwkbGeometryType) < 2 ^ 31"
    by (simp add: word_le_nat_alt word_less_nat_alt)
  then show ?thesis
    by (simp add: sample_env_def take_bit_eq_mask less_mask_eq)
qed

lemma keywords_upper:
  "map toupper ''POINT'' = ''POINT''"
  "map toupper ''LINESTRING'' = ''LINESTRING''"
  "map toupper ''POLYGON'' = ''POLYGON''"
  "map toupper ''GEOMETRYCOLLECTION'' = ''GEOMETRYCOLLECTION''"
  "map toupper ''MULTIPOLYGON'' = ''MULTIPOLYGON''"
  "map toupper ''MULTIPOINT'' = ''MULTIPOINT''"
  "map toupper ''MULTILINESTRING'' = ''MULTILINESTRING''"
  by code_simp+

lemma EQUAL_keyword:
  "EQUAL tok ''POINT'' = (map toupper tok = ''POINT'')"
  "EQUAL tok ''LINESTRING'' = (map toupper tok = ''LINESTRING'')"
  "EQUAL tok ''POLYGON'' = (map toupper tok = ''POLYGON'')"
  "EQUAL tok ''GEOMETRYCOLLECTION'' = (map toupper tok = ''GEOMETRYCOLLECTION'')"
  "EQUAL tok ''MULTIPOLYGON'' = (map toupper tok = ''MULTIPOLYGON'')"
  "EQUAL tok ''MULTIPOINT'' = (map toupper tok = ''MULTIPOINT'')"
  "EQUAL tok ''MULTILINESTRING'' = (map toupper tok = ''MULTILINESTRING'')"
  by (simp_all only: EQUAL_def keywords_upper)

lemma wkt_select:
  assumes "(kw, c) \<in> set wkt_keywords" and "EQUAL tok kw"
  shows "(if EQUAL tok ''POINT'' then Some (new_obj OGRPoint h)
          else if EQUAL tok ''LINESTRING'' then Some (new_obj OGRLineString h)
          else if EQUAL tok ''POLYGON'' then Some (new_obj OGRPolygon h)
          else if EQUAL tok ''GEOMETRYCOLLECTION''
            then Some (new_obj OGRGeometryCollection h)
          else if EQUAL tok ''MULTIPOLYGON'' then Some (new_obj OGRMultiPolygon h)
          else if EQUAL tok ''MULTIPOINT'' then Some (new_obj OGRMultiPoint h)
          else if EQUAL tok ''MULTILINESTRING''
            then Some (new_obj OGRMultiLineString h)
          else None) = Some (new_obj c h)"
  using assms by (auto simp add: wkt_keywords_def EQUAL_keyword)

lemma wkt_select_none:
  assumes "\<forall>kw \<in> fst ` set wkt_keywords. \<not> EQUAL tok kw"
  shows "(if EQUAL tok ''POINT'' then Some (new_obj OGRPoint h)
          else if EQUAL tok ''LINESTRING'' then Some (new_obj OGRLineString h)
          else if EQUAL tok ''POLYGON'' then Some (new_obj OGRPolygon h)
          else if EQUAL tok ''GEOMETRYCOLLECTION''
            then Some (new_obj OGRGeometryCollection h)
          else if EQUAL tok ''MULTIPOLYGON'' then Some (new_obj OGRMultiPolygon h)
          else if EQUAL tok ''MULTIPOINT'' then Some (new_obj OGRMultiPoint h)
          else if EQUAL tok ''MULTILINESTRING''
            then Some (new_obj OGRMultiLineString h)
          else None) = None"
  using assms by (simp add: wkt_keywords_def)

lemma createFromWkt_matched:
  assumes "OGRWktReadToken env wkt cur = Some (p, tok)"
    and "(kw, c) \<in> set wkt_keywords" and "EQUAL tok kw"
    and "importFromWkt env (length h) wkt cur (h @ [Some (empty_geom c)]) = ((e, cur'), h2)"
  shows "createFromWkt env wkt cur poSR h =
           \<lparr>wkt_err = e,
            wkt_return = (if e = OGRERR_NONE then Some (length h) else None),
            wkt_cursor = (if e = OGRERR_NONE then cur' else cur),
            wkt_heap = (if e = OGRERR_NONE then assignSpatialReference env (length h) poSR h2
                        else delete_geom env (Some (length h)) h2)\<rparr>"
  using assms(1,4) unfolding createFromWkt_def Let_def
  by (simp add: wkt_select [OF assms(2,3)] new_obj_def)

lemma createFromWkt_unmatched:
  assumes "OGRWktReadToken env wkt cur = Some (p, tok)"
    and "\<forall>kw \<in> fst ` set wkt_keywords. \<not> EQUAL tok kw"
  shows "createFromWkt env wkt cur poSR h =
           \<lparr>wkt_err = OGRERR_UNSUPPORTED_GEOMETRY_TYPE, wkt_return = None,
            wkt_cursor = cur, wkt_heap = h\<rparr>"
  using assms(1) unfolding createFromWkt_def Let_def
  by (simp add: wkt_select_none [OF assms(2)])

lemma createFromWkt_no_token:
  assumes "OGRWktReadToken env wkt cur = None"
  shows "createFromWkt env wkt cur poSR h =
           \<lparr>wkt_err = OGRERR_CORRUPT_DATA, wkt_return = None, wkt_cursor = cur, wkt_heap = h\<rparr>"
  using assms by (simp add: createFromWkt_def)

lemma sample_tokens:
  "OGRWktReadToken sample_env ''Polygon (1 2)'' 0 = Some (7, ''Polygon'')"
  "OGRWktReadToken sample_env ''Circle (1 2)'' 0 = Some (6, ''Circle'')"
  "OGRWktReadToken sample_env '' point empty next'' 0 = Some (6, ''point'')"
  "OGRWktReadToken sample_env '' point empty next'' 12 = Some (17, ''next'')"
  by code_simp+

lemma sample_equal:
  "EQUAL ''Polygon'' ''POLYGON''"
  "EQUAL ''point'' ''POINT''"
  "map toupper ''point'' = map toupper ''POINT''"
  "\<forall>kw \<in> fst ` set wkt_keywords. \<not> EQUAL ''Circle'' kw"
  by code_simp+

lemma sample_imports:
  "importFromWkt sample_env 0 ''Polygon (1 2)'' 0 [Some (empty_geom OGRPolygon)]
     = ((OGRERR_CORRUPT_DATA, 8), [Some (empty_geom OGRPolygon)])"
  "importFromWkt sample_env 0 '' point empty next'' 0 [Some (empty_geom OGRPoint)]
     = ((OGRERR_NONE, 12), [Some (empty_geom OGRPoint)])"
  "importFromWkb sample_env 0 (ndr_buffer 3) 5 [Some (empty_geom OGRPolygon)]
     = (OGRERR_NOT_ENOUGH_DATA, [Some (empty_geom OGRPolygon)])"
  by code_simp+

subsection \<open>forceToPolygon\<close>

text \<open>
  Claim C1. Whatever geometry it is given, the null pointer included, \<open>forceToPolygon\<close>
  returns its argument and leaves the store as it was. No type code differs from
  neither \<open>wkbGeometryCollection\<close> nor \<open>wkbMultiPolygon\<close>, so the guard holds for
  every object and the branch that gathers the rings is never entered.
\<close>

theorem forceToPolygon_returns_input:
  "(\<forall>t :: OGRwkbGeometryType. t \<noteq> wkbGeometryCollection \<or> t \<noteq> wkbMultiPolygon)
   \<and> (valid_ptr h poGeom \<longrightarrow> forceToPolygon env poGeom h = Some (poGeom, h))"
  by (auto simp add: valid_ptr_def forceToPolygon_def wkb_consts split: option.splits)

theorem forceToPolygon_returns_input_witness:
  "valid_ptr sample_heap (Some 0)
   \<and> map_option geomClass (obj_at sample_heap 0) = Some OGRMultiPolygon
   \<and> forceToPolygon sample_env (Some 0) sample_heap = Some (Some 0, sample_heap)
   \<and> forceToPolygon sample_env None sample_heap = Some (None, sample_heap)"
proof -
  have v: "valid_ptr sample_heap (Some 0)" "valid_ptr sample_heap None"
    by (simp_all add: valid_ptr_def sample_defs)
  have c: "map_option geomClass (obj_at sample_heap 0) = Some OGRMultiPolygon"
    by (simp add: sample_defs)
  show ?thesis
    using v c forceToPolygon_returns_input [of sample_heap "Some 0" sample_env]
      forceToPolygon_returns_input [of sample_heap None sample_env]
    by simp
qed

subsection \<open>createFromWkb and createFromWkt: a failing importer\<close>

text \<open>
  Claim C2. When the importer that the decoder delegates to returns a status other than
  \<open>OGRERR_NONE\<close>, \<open>createFromWkb\<close> and \<open>createFromWkt\<close> return that status, the
  output slot is null, the geometry that was being built is deleted (its address holds
  no object afterwards), and \<open>createFromWkt\<close> leaves the caller's cursor where it was.
\<close>

theorem importer_failure_atomic:
  "(wkb_header_ok pabyData nBytes
      \<and> createGeometry env (ucast (wkb_type_byte pabyData)) h = (Some a, h1)
      \<and> importFromWkb env a pabyData nBytes h1 = (e, h2) \<and> e \<noteq> OGRERR_NONE \<longrightarrow>
        wkb_err (createFromWkb env pabyData poSR nBytes h) = e
        \<and> wkb_return (createFromWkb env pabyData poSR nBytes h) = None
        \<and> wkb_heap (createFromWkb env pabyData poSR nBytes h) = delete_geom env (Some a) h2
        \<and> obj_at (wkb_heap (createFromWkb env pabyData poSR nBytes h)) a = None)
   \<and> (OGRWktReadToken env wkt cur = Some (p, tok)
      \<and> (kw, c) \<in> set wkt_keywords \<and> EQUAL tok kw
      \<and> importFromWkt env (length h) wkt cur (h @ [Some (empty_geom c)]) = ((e', cur'), h2')
      \<and> e' \<noteq> OGRERR_NONE \<longrightarrow>
        wkt_err (createFromWkt env wkt cur poSR h) = e'
        \<and> wkt_return (createFromWkt env wkt cur poSR h) = None
        \<and> wkt_cursor (createFromWkt env wkt cur poSR h) = cur
        \<and> wkt_heap (createFromWkt env wkt cur poSR h) = delete_geom env (Some (length h)) h2'
        \<and> obj_at (wkt_heap (createFromWkt env wkt cur poSR h)) (length h) = None)"
  by (auto simp add: createFromWkb_import createFromWkt_matched obj_at_deleted)

theorem importer_failure_atomic_witness:
  "wkb_header_ok (ndr_buffer 3) 5
   \<and> createGeometry sample_env (ucast (wkb_type_byte (ndr_buffer 3))) []
        = (Some 0, [Some (empty_geom OGRPolygon)])
   \<and> importFromWkb sample_env 0 (ndr_buffer 3) 5 [Some (empty_geom OGRPolygon)]
        = (OGRERR_NOT_ENOUGH_DATA, [Some (empty_geom OGRPolygon)])
   \<and> wkb_err (createFromWkb sample_env (ndr_buffer 3) None 5 []) = OGRERR_NOT_ENOUGH_DATA
   \<and> wkb_return (createFromWkb sample_env (ndr_buffer 3) None 5 []) = None
   \<and> obj_at (wkb_heap (createFromWkb sample_env (ndr_buffer 3) None 5 [])) 0 = None
   \<and> OGRWktReadToken sample_env ''Polygon (1 2)'' 0 = Some (7, ''Polygon'')
   \<and> (''POLYGON'', OGRPolygon) \<in> set wkt_keywords \<and> EQUAL ''Polygon'' ''POLYGON''
   \<and> importFromWkt sample_env 0 ''Polygon (1 2)'' 0 [Some (empty_geom OGRPolygon)]
        = ((OGRERR_CORRUPT_DATA, 8), [Some (empty_geom OGRPolygon)])
   \<and> wkt_err (createFromWkt sample_env ''Polygon (1 2)'' 0 None []) = OGRERR_CORRUPT_DATA
   \<and> wkt_return (createFromWkt sample_env ''Polygon (1 2)'' 0 None []) = None
   \<and> wkt_cursor (createFromWkt sample_env ''Polygon (1 2)'' 0 None []) = 0
   \<and> obj_at (wkt_heap (createFromWkt sample_env ''Polygon (1 2)'' 0 None [])) 0 = None"
proof -
  have ok: "wkb_header_ok (ndr_buffer 3) 5"
    by (simp add: wkb_header_ok_def ndr_buffer_def wkbNDR_def)
  have cg: "createGeometry sample_env (ucast (wkb_type_byte (ndr_buffer 3))) []
        = (Some 0, [Some (empty_geom OGRPolygon)])"
    by (simp add: createGeometry_def wkb_type_byte_def ndr_buffer_def wkbNDR_def sample_env_def
        wkb_consts new_obj_def)
  have kw: "(''POLYGON'', OGRPolygon) \<in> set wkt_keywords"
    by (simp add: wkt_keywords_def)
  show ?thesis
    using ok cg kw sample_tokens(1) sample_equal(1) sample_imports(1,3)
      importer_failure_atomic [of "ndr_buffer 3" 5 sample_env "[]" 0
        "[Some (empty_geom OGRPolygon)]" OGRERR_NOT_ENOUGH_DATA "[Some (empty_geom OGRPolygon)]"
        None "''Polygon (1 2)''" 0 7 "''Polygon''" "''POLYGON''" OGRPolygon
        OGRERR_CORRUPT_DATA 8 "[Some (empty_geom OGRPolygon)]"]
    by (simp add: obj_at_deleted)
qed

subsection \<open>createFromWkb: the minimum length\<close>

text \<open>
  Claim C3. With a byte count below 5 that is not the unbounded sentinel -1,
  \<open>createFromWkb\<close> returns \<open>OGRERR_NOT_ENOUGH_DATA\<close> and reads no byte of the buffer;
  nothing is created and the output slot is null.
\<close>

theorem createFromWkb_short_bound:
  assumes "nBytes < 5" and "nBytes \<noteq> -1"
  shows "createFromWkb env pabyData poSR nBytes h =
           \<lparr>wkb_err = OGRERR_NOT_ENOUGH_DATA, wkb_return = None, wkb_heap = h,
            wkb_reads = [], wkb_debug = [], wkb_tags = []\<rparr>"
  using assms by (simp add: createFromWkb_def)

theorem createFromWkb_short_bound_witness:
  "(4::int) < 5 \<and> (4::int) \<noteq> -1 \<and>
   wkb_err (createFromWkb sample_env (\<lambda>i. 1) None 4 []) = OGRERR_NOT_ENOUGH_DATA \<and>
   wkb_reads (createFromWkb sample_env (\<lambda>i. 1) None 4 []) = []"
  using createFromWkb_short_bound [of 4 sample_env "\<lambda>i. 1" None "[]"] by simp

subsection \<open>createFromWkb: the byte-order marker\<close>

text \<open>
  Claim C4. When the byte count passes the minimum-length check and byte 0 is neither
  \<open>wkbXDR\<close> nor \<open>wkbNDR\<close>, \<open>createFromWkb\<close> returns \<open>OGRERR_CORRUPT_DATA\<close>.
\<close>

theorem createFromWkb_bad_byte_order:
  assumes "5 \<le> nBytes \<or> nBytes = -1"
    and "ucast (pabyData 0) \<noteq> wkbXDR" and "ucast (pabyData 0) \<noteq> wkbNDR"
  shows "wkb_err (createFromWkb env pabyData poSR nBytes h) = OGRERR_CORRUPT_DATA
       \<and> wkb_return (createFromWkb env pabyData poSR nBytes h) = None
       \<and> wkb_heap (createFromWkb env pabyData poSR nBytes h) = h"
  using assms by (auto simp add: createFromWkb_def read_byte_def Let_def split: prod.splits)

theorem createFromWkb_bad_byte_order_witness:
  "wkb_err (createFromWkb sample_env corrupt_buffer None 21 []) = OGRERR_CORRUPT_DATA
   \<and> wkb_return (createFromWkb sample_env corrupt_buffer None 21 []) = None"
proof -
  have "ucast (corrupt_buffer 0) \<noteq> wkbXDR" "ucast (corrupt_buffer 0) \<noteq> wkbNDR"
    by (simp_all add: corrupt_buffer_def wkbXDR_def wkbNDR_def)
  then show ?thesis
    using createFromWkb_bad_byte_order [of 21 corrupt_buffer sample_env None "[]"] by simp
qed

subsection \<open>createFromWkb: the type byte\<close>

text \<open>
  Claim C5. With a recognised byte-order marker, the type tag handed to
  \<open>createGeometry\<close> is the single byte at offset 1 behind the little-endian marker and
  the single byte at offset 4 behind the big-endian marker: what \<open>createFromWkb\<close>
  returns is decided by the answer of \<open>createGeometry\<close> at that byte. If the answer is
  null the status is \<open>OGRERR_UNSUPPORTED_GEOMETRY_TYPE\<close>; otherwise the importer is run
  on the object that \<open>createGeometry\<close> made for that byte, in the store it left, and
  status, output slot and store follow from the importer's result. Byte 0 and that byte
  are the only bytes \<open>createFromWkb\<close> itself reads, and the tag is at most 255: of the
  4-byte type field only the low byte is looked at here.
\<close>

theorem createFromWkb_type_tag_byte:
  "(wkb_header_ok pabyData nBytes \<and> ucast (pabyData 0) = wkbNDR \<longrightarrow>
      wkb_tags (createFromWkb env pabyData poSR nBytes h) = [ucast (pabyData 1)]
      \<and> wkb_reads (createFromWkb env pabyData poSR nBytes h) = [0, 1]
      \<and> (createGeometry env (ucast (pabyData 1)) h = (None, h1) \<longrightarrow>
            wkb_err (createFromWkb env pabyData poSR nBytes h) = OGRERR_UNSUPPORTED_GEOMETRY_TYPE
            \<and> wkb_return (createFromWkb env pabyData poSR nBytes h) = None
            \<and> wkb_heap (createFromWkb env pabyData poSR nBytes h) = h1)
      \<and> (createGeometry env (ucast (pabyData 1)) h = (Some a, h1)
            \<and> importFromWkb env a pabyData nBytes h1 = (e, h2) \<longrightarrow>
            wkb_err (createFromWkb env pabyData poSR nBytes h) = e
            \<and> wkb_return (createFromWkb env pabyData poSR nBytes h)
                = (if e = OGRERR_NONE then Some a else None)
            \<and> wkb_heap (createFromWkb env pabyData poSR nBytes h)
                = (if e = OGRERR_NONE then assignSpatialReference env a poSR h2
                   else delete_geom env (Some a) h2)))
   \<and> (wkb_header_ok pabyData nBytes \<and> ucast (pabyData 0) = wkbXDR \<longrightarrow>
      wkb_tags (createFromWkb env pabyData poSR nBytes h) = [ucast (pabyData 4)]
      \<and> wkb_reads (createFromWkb env pabyData poSR nBytes h) = [0, 4]
      \<and> (createGeometry env (ucast (pabyData 4)) h = (None, h1) \<longrightarrow>
            wkb_err (createFromWkb env pabyData poSR nBytes h) = OGRERR_UNSUPPORTED_GEOMETRY_TYPE
            \<and> wkb_return (createFromWkb env pabyData poSR nBytes h) = None
            \<and> wkb_heap (createFromWkb env pabyData poSR nBytes h) = h1)
      \<and> (createGeometry env (ucast (pabyData 4)) h = (Some a, h1)
            \<and> importFromWkb env a pabyData nBytes h1 = (e, h2) \<longrightarrow>
            wkb_err (createFromWkb env pabyData poSR nBytes h) = e
            \<and> wkb_return (createFromWkb env pabyData poSR nBytes h)
                = (if e = OGRERR_NONE then Some a else None)
            \<and> wkb_heap (createFromWkb env pabyData poSR nBytes h)
                = (if e = OGRERR_NONE then assignSpatialReference env a poSR h2
                   else delete_geom env (Some a) h2)))
   \<and> (\<forall>t \<in> set (wkb_tags (createFromWkb env pabyData poSR nBytes h)).
        t = ucast (wkb_type_byte pabyData) \<and> t \<le> 255)"
proof -
  let ?r = "createFromWkb env pabyData poSR nBytes h"
  obtain q h1' where cg: "createGeometry env (ucast (wkb_type_byte pabyData)) h = (q, h1')"
    by (cases "createGeometry env (ucast (wkb_type_byte pabyData)) h")
  obtain e' h2' where im: "importFromWkb env (the q) pabyData nBytes h1' = (e', h2')"
    by (cases "importFromWkb env (the q) pabyData nBytes h1'")
  have ok: "wkb_header_ok pabyData nBytes \<Longrightarrow>
      wkb_tags ?r = [ucast (wkb_type_byte pabyData)]
      \<and> wkb_reads ?r = [0, if ucast (pabyData 0) = wkbNDR then 1 else 4]"
  proof (cases q)
    case None
    assume "wkb_header_ok pabyData nBytes"
    then show ?thesis using createFromWkb_unsupported cg None by simp
  next
    case (Some b)
    assume "wkb_header_ok pabyData nBytes"
    then show ?thesis
      using createFromWkb_import [of pabyData nBytes env h b h1' e' h2'] cg im Some by simp
  qed
  have bad: "\<not> wkb_header_ok pabyData nBytes \<Longrightarrow> wkb_tags ?r = []"
    by (auto simp add: createFromWkb_def wkb_header_ok_def read_byte_def Let_def split: prod.splits)
  have le: "(ucast (wkb_type_byte pabyData) :: OGRwkbGeometryType) \<le> 255"
    by (rule ucast_byte_le)
  have none: "wkb_header_ok pabyData nBytes \<Longrightarrow>
      createGeometry env (ucast (wkb_type_byte pabyData)) h = (None, h1) \<Longrightarrow>
      wkb_err ?r = OGRERR_UNSUPPORTED_GEOMETRY_TYPE \<and> wkb_return ?r = None \<and> wkb_heap ?r = h1"
    by (simp add: createFromWkb_unsupported)
  have some: "wkb_header_ok pabyData nBytes \<Longrightarrow>
      createGeometry env (ucast (wkb_type_byte pabyData)) h = (Some a, h1) \<Longrightarrow>
      importFromWkb env a pabyData nBytes h1 = (e, h2) \<Longrightarrow>
      wkb_err ?r = e \<and> wkb_return ?r = (if e = OGRERR_NONE then Some a else None)
      \<and> wkb_heap ?r = (if e = OGRERR_NONE then assignSpatialReference env a poSR h2
                        else delete_geom env (Some a) h2)"
    by (simp add: createFromWkb_import)
  have ndr: "ucast (pabyData 0) = wkbNDR \<Longrightarrow> wkb_type_byte pabyData = pabyData 1"
    by (simp add: wkb_type_byte_def)
  have xdr: "ucast (pabyData 0) = wkbXDR \<Longrightarrow> wkb_type_byte pabyData = pabyData 4"
    using byte_order_distinct by (simp add: wkb_type_byte_def)
  have tags: "\<forall>t \<in> set (wkb_tags ?r). t = ucast (wkb_type_byte pabyData) \<and> t \<le> 255"
    using ok bad le by (cases "wkb_header_ok pabyData nBytes") simp_all
  have N: "wkb_header_ok pabyData nBytes \<and> ucast (pabyData 0) = wkbNDR \<longrightarrow>
      wkb_tags ?r = [ucast (pabyData 1)] \<and> wkb_reads ?r = [0, 1]
      \<and> (createGeometry env (ucast (pabyData 1)) h = (None, h1) \<longrightarrow>
            wkb_err ?r = OGRERR_UNSUPPORTED_GEOMETRY_TYPE \<and> wkb_return ?r = None
            \<and> wkb_heap ?r = h1)
      \<and> (createGeometry env (ucast (pabyData 1)) h = (Some a, h1)
            \<and> importFromWkb env a pabyData nBytes h1 = (e, h2) \<longrightarrow>
            wkb_err ?r = e \<and> wkb_return ?r = (if e = OGRERR_NONE then Some a else None)
            \<and> wkb_heap ?r = (if e = OGRERR_NONE then assignSpatialReference env a poSR h2
                              else delete_geom env (Some a) h2))"
  proof (intro impI)
    assume A: "wkb_header_ok pabyData nBytes \<and> ucast (pabyData 0) = wkbNDR"
    then have tb: "wkb_type_byte pabyData = pabyData 1" by (simp add: ndr)
    show "wkb_tags ?r = [ucast (pabyData 1)] \<and> wkb_reads ?r = [0, 1]
      \<and> (createGeometry env (ucast (pabyData 1)) h = (None, h1) \<longrightarrow>
            wkb_err ?r = OGRERR_UNSUPPORTED_GEOMETRY_TYPE \<and> wkb_return ?r = None
            \<and> wkb_heap ?r = h1)
      \<and> (createGeometry env (ucast (pabyData 1)) h = (Some a, h1)
            \<and> importFromWkb env a pabyData nBytes h1 = (e, h2) \<longrightarrow>
            wkb_err ?r = e \<and> wkb_return ?r = (if e = OGRERR_NONE then Some a else None)
            \<and> wkb_heap ?r = (if e = OGRERR_NONE then assignSpatialReference env a poSR h2
                              else delete_geom env (Some a) h2))"
      using A ok none some unfolding tb by simp
  qed
  have X: "wkb_header_ok pabyData nBytes \<and> ucast (pabyData 0) = wkbXDR \<longrightarrow>
      wkb_tags ?r = [ucast (pabyData 4)] \<and> wkb_reads ?r = [0, 4]
      \<and> (createGeometry env (ucast (pabyData 4)) h = (None, h1) \<longrightarrow>
            wkb_err ?r = OGRERR_UNSUPPORTED_GEOMETRY_TYPE \<and> wkb_return ?r = None
            \<and> wkb_heap ?r = h1)
      \<and> (createGeometry env (ucast (pabyData 4)) h = (Some a, h1)
            \<and> importFromWkb env a pabyData nBytes h1 = (e, h2) \<longrightarrow>
            wkb_err ?r = e \<and> wkb_return ?r = (if e = OGRERR_NONE then Some a else None)
            \<and> wkb_heap ?r = (if e = OGRERR_NONE then assignSpatialReference env a poSR h2
                              else delete_geom env (Some a) h2))"
  proof (intro impI)
    assume A: "wkb_header_ok pabyData nBytes \<and> ucast (pabyData 0) = wkbXDR"
    then have tb: "wkb_type_byte pabyData = pabyData 4" by (simp add: xdr)
    have nn: "ucast (pabyData 0) \<noteq> wkbNDR"
      using A byte_order_distinct by simp
    show "wkb_tags ?r = [ucast (pabyData 4)] \<and> wkb_reads ?r = [0, 4]
      \<and> (createGeometry env (ucast (pabyData 4)) h = (None, h1) \<longrightarrow>
            wkb_err ?r = OGRERR_UNSUPPORTED_GEOMETRY_TYPE \<and> wkb_return ?r = None
            \<and> wkb_heap ?r = h1)
      \<and> (createGeometry env (ucast (pabyData 4)) h = (Some a, h1)
            \<and> importFromWkb env a pabyData nBytes h1 = (e, h2) \<longrightarrow>
            wkb_err ?r = e \<and> wkb_return ?r = (if e = OGRERR_NONE then Some a else None)
            \<and> wkb_heap ?r = (if e = OGRERR_NONE then assignSpatialReference env a poSR h2
                              else delete_geom env (Some a) h2))"
      using A nn ok none some unfolding tb by simp
  qed
  from N X tags show ?thesis by (intro conjI)
qed

theorem createFromWkb_type_tag_byte_witness:
  "wkb_header_ok (ndr_buffer 3) 21 \<and> ucast (ndr_buffer 3 0) = wkbNDR
   \<and> wkb_tags (createFromWkb sample_env (ndr_buffer 3) None 21 []) = [3]
   \<and> wkb_reads (createFromWkb sample_env (ndr_buffer 3) None 21 []) = [0, 1]
   \<and> createGeometry sample_env (ucast (ndr_buffer 3 1)) []
        = (Some 0, [Some (empty_geom OGRPolygon)])
   \<and> createGeometry sample_env (ucast (ndr_buffer 3 4)) [] = (None, [])
   \<and> importFromWkb sample_env 0 (ndr_buffer 3) 21 [Some (empty_geom OGRPolygon)]
        = (OGRERR_NONE, [Some (empty_geom OGRPolygon)])
   \<and> wkb_err (createFromWkb sample_env (ndr_buffer 3) None 21 []) = OGRERR_NONE
   \<and> wkb_return (createFromWkb sample_env (ndr_buffer 3) None 21 []) = Some 0
   \<and> wkb_heap (createFromWkb sample_env (ndr_buffer 3) None 21 [])
        = [Some (empty_geom OGRPolygon)]
   \<and> wkb_header_ok (xdr_buffer 3) 21 \<and> ucast (xdr_buffer 3 0) = wkbXDR
   \<and> wkb_tags (createFromWkb sample_env (xdr_buffer 3) None 21 []) = [3]
   \<and> wkb_reads (createFromWkb sample_env (xdr_buffer 3) None 21 []) = [0, 4]
   \<and> createGeometry sample_env (ucast (xdr_buffer 3 4)) []
        = (Some 0, [Some (empty_geom OGRPolygon)])
   \<and> createGeometry sample_env (ucast (xdr_buffer 3 1)) [] = (None, [])
   \<and> wkb_err (createFromWkb sample_env (xdr_buffer 3) None 21 []) = OGRERR_NONE
   \<and> wkb_return (createFromWkb sample_env (xdr_buffer 3) None 21 []) = Some 0
   \<and> wkb_heap (createFromWkb sample_env (xdr_buffer 3) None 21 [])
        = [Some (empty_geom OGRPolygon)]
   \<and> wkb_header_ok (ndr_buffer 9) 21
   \<and> createGeometry sample_env (ucast (ndr_buffer 9 1)) sample_heap = (None, sample_heap)
   \<and> wkb_err (createFromWkb sample_env (ndr_buffer 9) None 21 sample_heap)
        = OGRERR_UNSUPPORTED_GEOMETRY_TYPE
   \<and> wkb_heap (createFromWkb sample_env (ndr_buffer 9) None 21 sample_heap) = sample_heap"
proof -
  have ok: "wkb_header_ok (ndr_buffer 3) 21" "wkb_header_ok (xdr_buffer 3) 21"
    "wkb_header_ok (ndr_buffer 9) 21"
    by (simp_all add: wkb_header_ok_def ndr_buffer_def xdr_buffer_def wkbXDR_def wkbNDR_def)
  have bo: "ucast (ndr_buffer 3 0) = wkbNDR" "ucast (xdr_buffer 3 0) = wkbXDR"
    "ucast (ndr_buffer 9 0) = wkbNDR"
    by (simp_all add: ndr_buffer_def xdr_buffer_def wkbXDR_def wkbNDR_def)
  have tg: "ucast (ndr_buffer 3 1) = (3 :: OGRwkbGeometryType)"
    "ucast (xdr_buffer 3 4) = (3 :: OGRwkbGeometryType)"
    by (simp_all add: ndr_buffer_def xdr_buffer_def)
  have cg: "createGeometry sample_env (ucast (ndr_buffer 3 1)) []
        = (Some 0, [Some (empty_geom OGRPolygon)])"
    "createGeometry sample_env (ucast (xdr_buffer 3 4)) []
        = (Some 0, [Some (empty_geom OGRPolygon)])"
    "createGeometry sample_env (ucast (ndr_buffer 3 4)) [] = (None, [])"
    "createGeometry sample_env (ucast (xdr_buffer 3 1)) [] = (None, [])"
    "createGeometry sample_env (ucast (ndr_buffer 9 1)) sample_heap = (None, sample_heap)"
    by (simp_all add: createGeometry_def ndr_buffer_def xdr_buffer_def sample_env_def
        wkb_consts new_obj_def)
  have im: "importFromWkb sample_env 0 (ndr_buffer 3) 21 [Some (empty_geom OGRPolygon)]
        = (OGRERR_NONE, [Some (empty_geom OGRPolygon)])"
    "importFromWkb sample_env 0 (xdr_buffer 3) 21 [Some (empty_geom OGRPolygon)]
        = (OGRERR_NONE, [Some (empty_geom OGRPolygon)])"
    by (simp_all add: sample_env_def sample_import_wkb_def)
  have sr: "assignSpatialReference sample_env 0 None [Some (empty_geom OGRPolygon)]
        = [Some (empty_geom OGRPolygon)]"
    by (simp add: sample_env_def)
  show ?thesis
    using ok bo tg cg im sr
      createFromWkb_type_tag_byte [of "ndr_buffer 3" 21 sample_env None "[]"
        "[Some (empty_geom OGRPolygon)]" 0 OGRERR_NONE "[Some (empty_geom OGRPolygon)]"]
      createFromWkb_type_tag_byte [of "xdr_buffer 3" 21 sample_env None "[]"
        "[Some (empty_geom OGRPolygon)]" 0 OGRERR_NONE "[Some (empty_geom OGRPolygon)]"]
      createFromWkb_type_tag_byte [of "ndr_buffer 9" 21 sample_env None sample_heap
        sample_heap 0 OGRERR_NONE sample_heap]
    by simp
qed

subsection \<open>createGeometry\<close>

text \<open>
  Claim C6. When the flattened tag is one of the seven kinds, \<open>createGeometry\<close>
  returns a fresh address (one that held no object) with an empty instance of the class
  of that kind, and changes no other object; otherwise it returns null and leaves the
  store as it was. Two tags with the same flattened tag give the same result.
\<close>

theorem createGeometry_contract:
  "(\<forall>(code, c) \<in> set wkb_kinds. wkbFlatten env t = code \<longrightarrow>
      createGeometry env t h = (Some (length h), h @ [Some (empty_geom c)])
      \<and> obj_at h (length h) = None
      \<and> obj_at (snd (createGeometry env t h)) (length h) = Some (empty_geom c)
      \<and> (\<forall>b < length h. obj_at (snd (createGeometry env t h)) b = obj_at h b))
   \<and> (wkbFlatten env t \<notin> fst ` set wkb_kinds \<longrightarrow> createGeometry env t h = (None, h))
   \<and> (wkbFlatten env t = wkbFlatten env t' \<longrightarrow> createGeometry env t h = createGeometry env t' h)"
proof (intro conjI)
  show "\<forall>(code, c) \<in> set wkb_kinds. wkbFlatten env t = code \<longrightarrow>
      createGeometry env t h = (Some (length h), h @ [Some (empty_geom c)])
      \<and> obj_at h (length h) = None
      \<and> obj_at (snd (createGeometry env t h)) (length h) = Some (empty_geom c)
      \<and> (\<forall>b < length h. obj_at (snd (createGeometry env t h)) b = obj_at h b)"
    by (auto simp add: createGeometry_kind obj_at_fresh obj_at_append_old obj_at_append_new)
  show "wkbFlatten env t \<notin> fst ` set wkb_kinds \<longrightarrow> createGeometry env t h = (None, h)"
    by (simp add: createGeometry_other)
  show "wkbFlatten env t = wkbFlatten env t' \<longrightarrow> createGeometry env t h = createGeometry env t' h"
    by (simp add: createGeometry_def)
qed

theorem createGeometry_contract_witness:
  "(wkbPolygon, OGRPolygon) \<in> set wkb_kinds
   \<and> wkbFlatten sample_env 0x80000003 = wkbPolygon
   \<and> createGeometry sample_env 0x80000003 sample_heap
       = (Some 5, sample_heap @ [Some (empty_geom OGRPolygon)])
   \<and> obj_at sample_heap 5 = None
   \<and> wkbFlatten sample_env 9 \<notin> fst ` set wkb_kinds
   \<and> createGeometry sample_env 9 sample_heap = (None, sample_heap)
   \<and> createGeometry sample_env 0x80000003 sample_heap = createGeometry sample_env 3 sample_heap"
proof -
  have m: "(wkbPolygon, OGRPolygon) \<in> set wkb_kinds"
    by (simp add: wkb_kinds_def)
  have f: "wkbFlatten sample_env 0x80000003 = wkbPolygon" "wkbFlatten sample_env 3 = wkbPolygon"
    by (simp_all add: sample_env_def wkbPolygon_def)
  have n: "wkbFlatten sample_env 9 \<notin> fst ` set wkb_kinds"
    by (simp add: sample_env_def wkb_kinds_def wkb_consts)
  have l: "length sample_heap = 5"
    by (simp add: sample_heap_def)
  show ?thesis
    using m f n l createGeometry_contract [of sample_env "0x80000003" sample_heap 3]
      createGeometry_contract [of sample_env 9 sample_heap 9]
    by auto
qed

subsection \<open>Unsupported kinds and keywords\<close>

text \<open>
  Claim C7. A binary input whose type tag is, once flattened as \<open>createGeometry\<close>
  does, none of the seven kinds, and a text input whose first token equals none of the
  seven keywords up to letter case, are answered with
  \<open>OGRERR_UNSUPPORTED_GEOMETRY_TYPE\<close>, a null output slot and an unchanged store.
  Where flattening leaves every one-byte tag as it is, the test is on the type byte. A
  token that differs from a keyword in letter case only is matched: the status is the one
  of the importer run on a fresh instance of the keyword's class, and that instance is
  returned when the importer succeeds.
\<close>

theorem unsupported_type_rejected:
  "(wkb_header_ok pabyData nBytes
      \<and> wkbFlatten env (ucast (wkb_type_byte pabyData)) \<notin> fst ` set wkb_kinds \<longrightarrow>
        wkb_err (createFromWkb env pabyData poSR nBytes h) = OGRERR_UNSUPPORTED_GEOMETRY_TYPE
        \<and> wkb_return (createFromWkb env pabyData poSR nBytes h) = None
        \<and> wkb_heap (createFromWkb env pabyData poSR nBytes h) = h)
   \<and> ((\<forall>b :: byte. wkbFlatten env (ucast b) = ucast b)
      \<and> wkb_header_ok pabyData nBytes
      \<and> ucast (wkb_type_byte pabyData) \<notin> fst ` set wkb_kinds \<longrightarrow>
        wkb_err (createFromWkb env pabyData poSR nBytes h) = OGRERR_UNSUPPORTED_GEOMETRY_TYPE
        \<and> wkb_return (createFromWkb env pabyData poSR nBytes h) = None
        \<and> wkb_heap (createFromWkb env pabyData poSR nBytes h) = h)
   \<and> (OGRWktReadToken env wkt cur = Some (p, tok)
      \<and> (\<forall>kw \<in> fst ` set wkt_keywords. \<not> EQUAL tok kw) \<longrightarrow>
        wkt_err (createFromWkt env wkt cur poSR h) = OGRERR_UNSUPPORTED_GEOMETRY_TYPE
        \<and> wkt_return (createFromWkt env wkt cur poSR h) = None
        \<and> wkt_cursor (createFromWkt env wkt cur poSR h) = cur
        \<and> wkt_heap (createFromWkt env wkt cur poSR h) = h)
   \<and> (OGRWktReadToken env wkt cur = Some (p, tok)
      \<and> (kw, c) \<in> set wkt_keywords \<and> map toupper tok = map toupper kw \<longrightarrow>
        wkt_err (createFromWkt env wkt cur poSR h)
          = fst (fst (importFromWkt env (length h) wkt cur (h @ [Some (empty_geom c)])))
        \<and> (wkt_err (createFromWkt env wkt cur poSR h) = OGRERR_NONE \<longrightarrow>
             wkt_return (createFromWkt env wkt cur poSR h) = Some (length h)))"
proof (intro conjI impI)
  assume A: "wkb_header_ok pabyData nBytes
      \<and> wkbFlatten env (ucast (wkb_type_byte pabyData)) \<notin> fst ` set wkb_kinds"
  then have "createGeometry env (ucast (wkb_type_byte pabyData)) h = (None, h)"
    by (simp add: createGeometry_other)
  with A have r: "createFromWkb env pabyData poSR nBytes h =
           \<lparr>wkb_err = OGRERR_UNSUPPORTED_GEOMETRY_TYPE, wkb_return = None, wkb_heap = h,
            wkb_reads = [0, if ucast (pabyData 0) = wkbNDR then 1 else 4], wkb_debug = [],
            wkb_tags = [ucast (wkb_type_byte pabyData)]\<rparr>"
    by (simp add: createFromWkb_unsupported)
  show "wkb_err (createFromWkb env pabyData poSR nBytes h) = OGRERR_UNSUPPORTED_GEOMETRY_TYPE"
    by (simp add: r)
  show "wkb_return (createFromWkb env pabyData poSR nBytes h) = None"
    by (simp add: r)
  show "wkb_heap (createFromWkb env pabyData poSR nBytes h) = h"
    by (simp add: r)
next
  assume A': "(\<forall>b :: byte. wkbFlatten env (ucast b) = ucast b)
      \<and> wkb_header_ok pabyData nBytes
      \<and> ucast (wkb_type_byte pabyData) \<notin> fst ` set wkb_kinds"
  then have "wkbFlatten env (ucast (wkb_type_byte pabyData)) \<notin> fst ` set wkb_kinds"
    by simp
  then have "createGeometry env (ucast (wkb_type_byte pabyData)) h = (None, h)"
    by (rule createGeometry_other)
  with A' have r: "createFromWkb env pabyData poSR nBytes h =
           \<lparr>wkb_err = OGRERR_UNSUPPORTED_GEOMETRY_TYPE, wkb_return = None, wkb_heap = h,
            wkb_reads = [0, if ucast (pabyData 0) = wkbNDR then 1 else 4], wkb_debug = [],
            wkb_tags = [ucast (wkb_type_byte pabyData)]\<rparr>"
    by (simp add: createFromWkb_unsupported)
  show "wkb_err (createFromWkb env pabyData poSR nBytes h) = OGRERR_UNSUPPORTED_GEOMETRY_TYPE"
    by (simp add: r)
  show "wkb_return (createFromWkb env pabyData poSR nBytes h) = None"
    by (simp add: r)
  show "wkb_heap (createFromWkb env pabyData poSR nBytes h) = h"
    by (simp add: r)
next
  assume B: "OGRWktReadToken env wkt cur = Some (p, tok)
      \<and> (\<forall>kw \<in> fst ` set wkt_keywords. \<not> EQUAL tok kw)"
  then have r: "createFromWkt env wkt cur poSR h =
           \<lparr>wkt_err = OGRERR_UNSUPPORTED_GEOMETRY_TYPE, wkt_return = None,
            wkt_cursor = cur, wkt_heap = h\<rparr>"
    using createFromWkt_unmatched [of env wkt cur p tok poSR h] by simp
  show "wkt_err (createFromWkt env wkt cur poSR h) = OGRERR_UNSUPPORTED_GEOMETRY_TYPE"
    by (simp add: r)
  show "wkt_return (createFromWkt env wkt cur poSR h) = None"
    by (simp add: r)
  show "wkt_cursor (createFromWkt env wkt cur poSR h) = cur"
    by (simp add: r)
  show "wkt_heap (createFromWkt env wkt cur poSR h) = h"
    by (simp add: r)
next
  assume C: "OGRWktReadToken env wkt cur = Some (p, tok)
      \<and> (kw, c) \<in> set wkt_keywords \<and> map toupper tok = map toupper kw"
  obtain e cur' h2 where
    im: "importFromWkt env (length h) wkt cur (h @ [Some (empty_geom c)]) = ((e, cur'), h2)"
    by (metis surj_pair)
  have r: "createFromWkt env wkt cur poSR h =
           \<lparr>wkt_err = e,
            wkt_return = (if e = OGRERR_NONE then Some (length h) else None),
            wkt_cursor = (if e = OGRERR_NONE then cur' else cur),
            wkt_heap = (if e = OGRERR_NONE then assignSpatialReference env (length h) poSR h2
                        else delete_geom env (Some (length h)) h2)\<rparr>"
    using C im createFromWkt_matched [of env wkt cur p tok kw c h e cur' h2 poSR]
    by (simp add: EQUAL_def)
  show "wkt_err (createFromWkt env wkt cur poSR h)
          = fst (fst (importFromWkt env (length h) wkt cur (h @ [Some (empty_geom c)])))"
    by (simp add: r im)
  assume "wkt_err (createFromWkt env wkt cur poSR h) = OGRERR_NONE"
  then show "wkt_return (createFromWkt env wkt cur poSR h) = Some (length h)"
    by (simp add: r)
qed

theorem unsupported_type_rejected_witness:
  "wkb_header_ok (ndr_buffer 9) 21
   \<and> wkbFlatten sample_env (ucast (wkb_type_byte (ndr_buffer 9))) \<notin> fst ` set wkb_kinds
   \<and> ucast (wkb_type_byte (ndr_buffer 9)) \<notin> fst ` set wkb_kinds
   \<and> wkb_err (createFromWkb sample_env (ndr_buffer 9) None 21 sample_heap)
        = OGRERR_UNSUPPORTED_GEOMETRY_TYPE
   \<and> wkb_return (createFromWkb sample_env (ndr_buffer 9) None 21 sample_heap) = None
   \<and> OGRWktReadToken sample_env ''Circle (1 2)'' 0 = Some (6, ''Circle'')
   \<and> \<not> EQUAL ''Circle'' ''POINT'' \<and> \<not> EQUAL ''Circle'' ''LINESTRING''
   \<and> \<not> EQUAL ''Circle'' ''POLYGON'' \<and> \<not> EQUAL ''Circle'' ''GEOMETRYCOLLECTION''
   \<and> \<not> EQUAL ''Circle'' ''MULTIPOLYGON'' \<and> \<not> EQUAL ''Circle'' ''MULTIPOINT''
   \<and> \<not> EQUAL ''Circle'' ''MULTILINESTRING''
   \<and> wkt_err (createFromWkt sample_env ''Circle (1 2)'' 0 None sample_heap)
        = OGRERR_UNSUPPORTED_GEOMETRY_TYPE
   \<and> wkt_return (createFromWkt sample_env ''Circle (1 2)'' 0 None sample_heap) = None
   \<and> OGRWktReadToken sample_env '' point empty next'' 0 = Some (6, ''point'')
   \<and> (''POINT'', OGRPoint) \<in> set wkt_keywords
   \<and> map toupper ''point'' = map toupper ''POINT''
   \<and> wkt_err (createFromWkt sample_env '' point empty next'' 0 None []) = OGRERR_NONE
   \<and> wkt_return (createFromWkt sample_env '' point empty next'' 0 None []) = Some 0"
proof -
  have ok: "wkb_header_ok (ndr_buffer 9) 21"
    by (simp add: wkb_header_ok_def ndr_buffer_def wkbNDR_def)
  have nk: "wkbFlatten sample_env (ucast (wkb_type_byte (ndr_buffer 9))) \<notin> fst ` set wkb_kinds"
    by (simp add: wkb_type_byte_def ndr_buffer_def wkbNDR_def sample_env_def wkb_kinds_def
        wkb_consts)
  have rk: "ucast (wkb_type_byte (ndr_buffer 9)) \<notin> fst ` set wkb_kinds"
    by (simp add: wkb_type_byte_def ndr_buffer_def wkbNDR_def wkb_kinds_def wkb_consts)
  have fl: "\<forall>b :: byte. wkbFlatten sample_env (ucast b) = ucast b"
    by (simp add: sample_flatten_bytes)
  have kw: "(''POINT'', OGRPoint) \<in> set wkt_keywords"
    by (simp add: wkt_keywords_def)
  have ne: "\<not> EQUAL ''Circle'' ''POINT''" "\<not> EQUAL ''Circle'' ''LINESTRING''"
    "\<not> EQUAL ''Circle'' ''POLYGON''" "\<not> EQUAL ''Circle'' ''GEOMETRYCOLLECTION''"
    "\<not> EQUAL ''Circle'' ''MULTIPOLYGON''" "\<not> EQUAL ''Circle'' ''MULTIPOINT''"
    "\<not> EQUAL ''Circle'' ''MULTILINESTRING''"
    using sample_equal(4) by (simp_all add: wkt_keywords_def)
  show ?thesis
    using ok nk rk fl kw ne sample_tokens(2,3) sample_equal(3,4) sample_imports(2)
      unsupported_type_rejected [of "ndr_buffer 9" 21 sample_env None sample_heap
        "''Circle (1 2)''" 0 6 "''Circle''" "''POINT''" OGRPoint]
      unsupported_type_rejected [of "ndr_buffer 9" 21 sample_env None "[]"
        "'' point empty next''" 0 6 "''point''" "''POINT''" OGRPoint]
    by simp
qed

subsection \<open>forceToMultiPolygon\<close>

text \<open>
  Claim C8. \<open>forceToMultiPolygon\<close> returns null for null, and returns its argument
  with the store unchanged when the flattened type of the object is not
  \<open>wkbPolygon\<close>. When it is, the result is a fresh address holding a multipolygon
  whose only child is the argument; the polygon itself and every other object, and so
  its rings, are as before.
\<close>

theorem forceToMultiPolygon_contract:
  "forceToMultiPolygon env None h = Some (None, h)
   \<and> (obj_at h a = Some g \<and> wkbFlatten env (getGeometryType env g) \<noteq> wkbPolygon \<longrightarrow>
        forceToMultiPolygon env (Some a) h = Some (Some a, h))
   \<and> (obj_at h a = Some g \<and> wkbFlatten env (getGeometryType env g) = wkbPolygon \<longrightarrow>
        (\<exists>h'. forceToMultiPolygon env (Some a) h = Some (Some (length h), h')
           \<and> h' = h @ [Some ((empty_geom OGRMultiPolygon)\<lparr>geoms := [a]\<rparr>)]
           \<and> obj_at h (length h) = None
           \<and> map_option geomClass (obj_at h' (length h)) = Some OGRMultiPolygon
           \<and> map_option geoms (obj_at h' (length h)) = Some [a]
           \<and> obj_at h' a = Some g
           \<and> (\<forall>b < length h. obj_at h' b = obj_at h b)))"
proof (intro conjI impI)
  show "forceToMultiPolygon env None h = Some (None, h)"
    by (simp add: forceToMultiPolygon_def)
next
  assume "obj_at h a = Some g \<and> wkbFlatten env (getGeometryType env g) \<noteq> wkbPolygon"
  then show "forceToMultiPolygon env (Some a) h = Some (Some a, h)"
    by (simp add: forceToMultiPolygon_def)
next
  assume A: "obj_at h a = Some g \<and> wkbFlatten env (getGeometryType env g) = wkbPolygon"
  then have lt: "a < length h" by (simp add: obj_at_Some_less)
  let ?h' = "h @ [Some ((empty_geom OGRMultiPolygon)\<lparr>geoms := [a]\<rparr>)]"
  have run: "forceToMultiPolygon env (Some a) h = Some (Some (length h), ?h')"
    using A by (simp add: forceToMultiPolygon_def new_obj_def addGeometry_def obj_at_append_new
        empty_geom_def)
  have old: "\<forall>b < length h. obj_at ?h' b = obj_at h b"
    by (simp add: obj_at_append_old)
  have new: "obj_at ?h' (length h) = Some ((empty_geom OGRMultiPolygon)\<lparr>geoms := [a]\<rparr>)"
    by (rule obj_at_append_new)
  show "\<exists>h'. forceToMultiPolygon env (Some a) h = Some (Some (length h), h')
           \<and> h' = h @ [Some ((empty_geom OGRMultiPolygon)\<lparr>geoms := [a]\<rparr>)]
           \<and> obj_at h (length h) = None
           \<and> map_option geomClass (obj_at h' (length h)) = Some OGRMultiPolygon
           \<and> map_option geoms (obj_at h' (length h)) = Some [a]
           \<and> obj_at h' a = Some g
           \<and> (\<forall>b < length h. obj_at h' b = obj_at h b)"
    using run old new lt A by (simp add: obj_at_fresh empty_geom_def)
qed

theorem forceToMultiPolygon_contract_witness:
  "obj_at sample_heap 1 = Some ((empty_geom OGRPolygon)\<lparr>rings := [2, 3, 4]\<rparr>)
   \<and> wkbFlatten sample_env
        (getGeometryType sample_env ((empty_geom OGRPolygon)\<lparr>rings := [2, 3, 4]\<rparr>)) = wkbPolygon
   \<and> forceToMultiPolygon sample_env (Some 1) sample_heap
       = Some (Some 5, sample_heap @ [Some ((empty_geom OGRMultiPolygon)\<lparr>geoms := [1]\<rparr>)])
   \<and> obj_at sample_heap 0 = Some ((empty_geom OGRMultiPolygon)\<lparr>geoms := [1]\<rparr>)
   \<and> wkbFlatten sample_env
        (getGeometryType sample_env ((empty_geom OGRMultiPolygon)\<lparr>geoms := [1]\<rparr>)) \<noteq> wkbPolygon
   \<and> forceToMultiPolygon sample_env (Some 0) sample_heap = Some (Some 0, sample_heap)"
proof -
  have o: "obj_at sample_heap 1 = Some ((empty_geom OGRPolygon)\<lparr>rings := [2, 3, 4]\<rparr>)"
    "obj_at sample_heap 0 = Some ((empty_geom OGRMultiPolygon)\<lparr>geoms := [1]\<rparr>)"
    by (simp_all add: sample_heap_def obj_at_def)
  have t: "wkbFlatten sample_env
        (getGeometryType sample_env ((empty_geom OGRPolygon)\<lparr>rings := [2, 3, 4]\<rparr>)) = wkbPolygon"
    "wkbFlatten sample_env
        (getGeometryType sample_env ((empty_geom OGRMultiPolygon)\<lparr>geoms := [1]\<rparr>)) \<noteq> wkbPolygon"
    by (simp_all add: sample_env_def sample_type_of_def empty_geom_def wkb_consts)
  have l: "length sample_heap = 5"
    by (simp add: sample_heap_def)
  show ?thesis
    using o t l
      forceToMultiPolygon_contract [of sample_env sample_heap 1
        "(empty_geom OGRPolygon)\<lparr>rings := [2, 3, 4]\<rparr>"]
      forceToMultiPolygon_contract [of sample_env sample_heap 0
        "(empty_geom OGRMultiPolygon)\<lparr>geoms := [1]\<rparr>"]
    by simp
qed

subsection \<open>createFromWkt: the cursor\<close>

text \<open>
  Claim C9. When \<open>createFromWkt\<close> succeeds, the caller's cursor is the position that
  the importer left, the importer having started at the caller's original position on a
  fresh instance of the class of the matched keyword; a token read from the cursor
  afterwards is therefore read at the importer's final position. When
  \<open>createFromWkt\<close> does not succeed the cursor is not moved, so the decoder never
  moves the cursor by itself.
\<close>

theorem createFromWkt_cursor:
  "(wkt_err (createFromWkt env wkt cur poSR h) = OGRERR_NONE \<longrightarrow>
      (\<exists>p tok kw c h2. OGRWktReadToken env wkt cur = Some (p, tok)
         \<and> (kw, c) \<in> set wkt_keywords \<and> EQUAL tok kw
         \<and> importFromWkt env (length h) wkt cur (h @ [Some (empty_geom c)])
             = ((OGRERR_NONE, wkt_cursor (createFromWkt env wkt cur poSR h)), h2)))
   \<and> (wkt_err (createFromWkt env wkt cur poSR h) \<noteq> OGRERR_NONE \<longrightarrow>
        wkt_cursor (createFromWkt env wkt cur poSR h) = cur)"
proof (cases "OGRWktReadToken env wkt cur")
  case None
  then show ?thesis by (simp add: createFromWkt_no_token)
next
  case (Some pt)
  obtain p tok where pt: "pt = (p, tok)" by (cases pt)
  have tk: "OGRWktReadToken env wkt cur = Some (p, tok)"
    using Some pt by simp
  show ?thesis
  proof (cases "\<forall>kw \<in> fst ` set wkt_keywords. \<not> EQUAL tok kw")
    case True
    with tk show ?thesis by (simp add: createFromWkt_unmatched)
  next
    case False
    then obtain kw c where kc: "(kw, c) \<in> set wkt_keywords" "EQUAL tok kw"
      by force
    obtain e cur' h2 where
      im: "importFromWkt env (length h) wkt cur (h @ [Some (empty_geom c)]) = ((e, cur'), h2)"
      by (metis surj_pair)
    have r: "createFromWkt env wkt cur poSR h = \<lparr>wkt_err = e,
            wkt_return = (if e = OGRERR_NONE then Some (length h) else None),
            wkt_cursor = (if e = OGRERR_NONE then cur' else cur),
            wkt_heap = (if e = OGRERR_NONE then assignSpatialReference env (length h) poSR h2
                        else delete_geom env (Some (length h)) h2)\<rparr>"
      using tk kc im by (rule createFromWkt_matched)
    show ?thesis
    proof (cases "e = OGRERR_NONE")
      case True
      then show ?thesis using tk kc im r by auto
    next
      case False
      then show ?thesis using r by simp
    qed
  qed
qed

theorem createFromWkt_cursor_witness:
  "wkt_err (createFromWkt sample_env '' point empty next'' 0 None []) = OGRERR_NONE
   \<and> wkt_cursor (createFromWkt sample_env '' point empty next'' 0 None []) = 12
   \<and> (\<exists>p tok kw c h2. OGRWktReadToken sample_env '' point empty next'' 0 = Some (p, tok)
         \<and> (kw, c) \<in> set wkt_keywords \<and> EQUAL tok kw
         \<and> importFromWkt sample_env 0 '' point empty next'' 0 [Some (empty_geom c)]
             = ((OGRERR_NONE, 12), h2))
   \<and> OGRWktReadToken sample_env '' point empty next'' 12 = Some (17, ''next'')
   \<and> wkt_err (createFromWkt sample_env ''Polygon (1 2)'' 0 None []) \<noteq> OGRERR_NONE
   \<and> wkt_cursor (createFromWkt sample_env ''Polygon (1 2)'' 0 None []) = 0"
proof -
  have r: "createFromWkt sample_env '' point empty next'' 0 None []
        = \<lparr>wkt_err = OGRERR_NONE, wkt_return = Some 0, wkt_cursor = 12,
           wkt_heap = [Some (empty_geom OGRPoint)]\<rparr>"
    by code_simp
  have e: "wkt_err (createFromWkt sample_env ''Polygon (1 2)'' 0 None []) \<noteq> OGRERR_NONE"
    by code_simp
  show ?thesis
    using r e sample_tokens(4)
      createFromWkt_cursor [of sample_env "'' point empty next''" 0 None "[]"]
      createFromWkt_cursor [of sample_env "''Polygon (1 2)''" 0 None "[]"]
    by simp
qed

subsection \<open>createFromWkb: the diagnostic reads\<close>

text \<open>
  Claim C10. When byte 0 is not a byte-order marker, \<open>createFromWkb\<close> reads the bytes
  at offsets 0 to 8 for its debug message, whatever the byte count, and then returns
  \<open>OGRERR_CORRUPT_DATA\<close>. With a byte count n from 5 to 8 it thereby reads at an
  offset that is not below n.
\<close>

theorem createFromWkb_diagnostic_reads:
  assumes "5 \<le> nBytes \<or> nBytes = -1"
    and "ucast (pabyData 0) \<noteq> wkbXDR" and "ucast (pabyData 0) \<noteq> wkbNDR"
  shows "wkb_err (createFromWkb env pabyData poSR nBytes h) = OGRERR_CORRUPT_DATA
       \<and> set (wkb_reads (createFromWkb env pabyData poSR nBytes h)) = {0, 1, 2, 3, 4, 5, 6, 7, 8}
       \<and> wkb_debug (createFromWkb env pabyData poSR nBytes h)
           = map pabyData [0, 1, 2, 3, 4, 5, 6, 7, 8]
       \<and> (5 \<le> nBytes \<and> nBytes \<le> 8 \<longrightarrow>
            (\<exists>i \<in> set (wkb_reads (createFromWkb env pabyData poSR nBytes h)). nBytes \<le> int i))"
  using assms by (auto simp add: createFromWkb_def read_byte_def Let_def split: prod.splits)

theorem createFromWkb_diagnostic_reads_witness:
  "wkb_err (createFromWkb sample_env corrupt_buffer None 5 []) = OGRERR_CORRUPT_DATA
   \<and> (\<exists>i \<in> set (wkb_reads (createFromWkb sample_env corrupt_buffer None 5 [])). 5 \<le> int i)"
proof -
  have "ucast (corrupt_buffer 0) \<noteq> wkbXDR" "ucast (corrupt_buffer 0) \<noteq> wkbNDR"
    by (simp_all add: corrupt_buffer_def wkbXDR_def wkbNDR_def)
  then show ?thesis
    using createFromWkb_diagnostic_reads [of 5 corrupt_buffer sample_env None "[]"] by simp
qed

end
